theory Spec2Isabelle
  imports Main
begin

section \<open>The Pomodoro timer of the Study Buddy extension\<close>

text \<open>
  The development embeds \<^verbatim>\<open>src/extension/background.js\<close> (class \<^verbatim>\<open>PomodoroTimer\<close>, the
  alarm listener and the \<^verbatim>\<open>updateSettings\<close> message case) and the save handler of the
  settings modal in \<^verbatim>\<open>src/extension/popup.js\<close>.

  Conventions of the embedding:
  \<^item> The numbers of the clock (minutes, milliseconds, counters) are \<open>int\<close>. \<^verbatim>\<open>NaN\<close>
    is modelled where it arises, in what \<^verbatim>\<open>parseInt\<close> returns to the save handler of the
    settings modal; fractions are outside the model.
  \<^item> A phase is the JavaScript string itself (\<^verbatim>\<open>"work"\<close>, \<^verbatim>\<open>"break"\<close>, \<^verbatim>\<open>"longBreak"\<close>),
    so the \<^verbatim>\<open>default\<close> branch of the \<^verbatim>\<open>switch\<close> and the \<^verbatim>\<open>||\<close> defaults stay visible.
  \<^item> \<^verbatim>\<open>null\<close> is \<open>None\<close>. Truthiness is written out: the number \<open>0\<close> and the empty
    string are falsy, as \<^verbatim>\<open>null\<close> is.
  \<^item> Every \<^verbatim>\<open>Date.now()\<close> is a parameter \<open>now\<close> of the operation that reads it.
  \<^item> The object and the browser side it talks to (\<^verbatim>\<open>chrome.storage.local\<close>, the alarm,
    the calls made to the \<^verbatim>\<open>chrome\<close> API, in order) form one record that every method
    takes and returns. Storage calls are taken to succeed, and each \<^verbatim>\<open>async\<close> method
    runs to its end before the next one starts.
\<close>

subsection \<open>Data\<close>

record timer_settings =
  workTime :: int
  shortBreak :: int
  longBreak :: int
  longBreakInterval :: int

text \<open>A settings object as a caller passes it: any of the four fields may be missing.\<close>

record new_settings =
  new_workTime :: "int option"
  new_shortBreak :: "int option"
  new_longBreak :: "int option"
  new_longBreakInterval :: "int option"

text \<open>The object stored under the key \<^verbatim>\<open>timerState\<close>.\<close>

record timerState =
  ts_isRunning :: bool
  ts_currentPhase :: string
  ts_completedPomodoros :: int
  ts_startTime :: "int option"
  ts_timeRemaining :: "int option"

text \<open>The calls to the \<^verbatim>\<open>chrome\<close> API that have an effect outside the object.\<close>

datatype chrome_call =
    StorageSetTimerState timerState
  | StorageSetTimerSettings timer_settings
  | AlarmsClear
  | AlarmsCreate
  | NotificationsCreate string string
  | TtsSpeak string
  | SendTimerCompleted string string int

record pomodoro =
  isTimerRunning :: bool
  currentPhase :: string
  timeRemainingInMilliseconds :: int
  completedPomodoros :: int
  timerStartTime :: "int option"
  settings :: timer_settings
  stored_timerState :: "timerState option"
  stored_timerSettings :: "timer_settings option"
  alarm :: bool
  calls :: "chrome_call list"

text \<open>The object \<^verbatim>\<open>getState\<close> returns.\<close>

record state_snapshot =
  gs_isRunning :: bool
  gs_currentPhase :: string
  gs_timeRemaining :: int
  gs_totalTime :: int
  gs_completedPomodoros :: int
  gs_startTime :: "int option"
  gs_settings :: timer_settings


subsection \<open>JavaScript helpers\<close>

text \<open>\<^verbatim>\<open>a % b === 0\<close>: the remainder takes the sign of the dividend, and \<^verbatim>\<open>a % 0\<close> is
  \<^verbatim>\<open>NaN\<close>, which equals nothing.\<close>

definition js_rem :: "int \<Rightarrow> int \<Rightarrow> int option" where
  "js_rem a b = (if b = 0 then None else Some (sgn a * (\<bar>a\<bar> mod \<bar>b\<bar>)))"

definition rem_is_zero :: "int \<Rightarrow> int \<Rightarrow> bool" where
  "rem_is_zero a b = (js_rem a b = Some 0)"

text \<open>\<^verbatim>\<open>null\<close> in a subtraction is \<open>0\<close>; in a condition, \<^verbatim>\<open>null\<close> and \<open>0\<close> are false.\<close>

definition to_number :: "int option \<Rightarrow> int" where
  "to_number v = (case v of None \<Rightarrow> 0 | Some n \<Rightarrow> n)"

definition truthy :: "int option \<Rightarrow> bool" where
  "truthy v = (case v of None \<Rightarrow> False | Some n \<Rightarrow> n \<noteq> 0)"

subsection \<open>The methods of PomodoroTimer\<close>

definition default_settings :: timer_settings where
  "default_settings =
     \<lparr>workTime = 25, shortBreak = 5, longBreak = 15, longBreakInterval = 4\<rparr>"

definition getPhaseTimeInMilliseconds :: "pomodoro \<Rightarrow> string \<Rightarrow> int" where
  "getPhaseTimeInMilliseconds s phase =
     (if phase = ''work'' then workTime (settings s) * 60 * 1000
      else if phase = ''break'' then shortBreak (settings s) * 60 * 1000
      else if phase = ''longBreak'' then longBreak (settings s) * 60 * 1000
      else workTime (settings s) * 60 * 1000)"

definition saveTimerState :: "pomodoro \<Rightarrow> pomodoro" where
  "saveTimerState s =
     (let timerState =
        \<lparr>ts_isRunning = isTimerRunning s,
         ts_currentPhase = currentPhase s,
         ts_completedPomodoros = completedPomodoros s,
         ts_startTime = timerStartTime s,
         ts_timeRemaining = Some (timeRemainingInMilliseconds s)\<rparr>
      in s\<lparr>stored_timerState := Some timerState,
           calls := calls s @ [StorageSetTimerState timerState]\<rparr>)"

definition loadTimerState :: "pomodoro \<Rightarrow> pomodoro" where
  "loadTimerState s =
     (case stored_timerState s of
        None \<Rightarrow> s
      | Some ts \<Rightarrow>
          let s1 = s\<lparr>isTimerRunning := ts_isRunning ts,
                     currentPhase :=
                       (if ts_currentPhase ts = [] then ''work'' else ts_currentPhase ts),
                     completedPomodoros := ts_completedPomodoros ts,
                     timerStartTime :=
                       (if truthy (ts_startTime ts) then ts_startTime ts else None)\<rparr>;
              s2 = (case ts_timeRemaining ts of
                      Some r \<Rightarrow> s1\<lparr>timeRemainingInMilliseconds := r\<rparr>
                    | None \<Rightarrow> s1)
          in if \<not> isTimerRunning s2 \<and> timeRemainingInMilliseconds s2 = 0
             then s2\<lparr>timeRemainingInMilliseconds :=
                       getPhaseTimeInMilliseconds s2 (currentPhase s2)\<rparr>
             else s2)"

text \<open>The spread \<^verbatim>\<open>{ ...this.settings, ...newSettings }\<close>.\<close>

definition merge_settings :: "timer_settings \<Rightarrow> new_settings \<Rightarrow> timer_settings" where
  "merge_settings cur n =
     \<lparr>workTime = (case new_workTime n of None \<Rightarrow> workTime cur | Some v \<Rightarrow> v),
      shortBreak = (case new_shortBreak n of None \<Rightarrow> shortBreak cur | Some v \<Rightarrow> v),
      longBreak = (case new_longBreak n of None \<Rightarrow> longBreak cur | Some v \<Rightarrow> v),
      longBreakInterval =
        (case new_longBreakInterval n of None \<Rightarrow> longBreakInterval cur | Some v \<Rightarrow> v)\<rparr>"

text \<open>
  \<^verbatim>\<open>loadSettings\<close> spreads the stored settings over the current ones. Every write to the
  key \<^verbatim>\<open>timerSettings\<close> stores an object with all four fields.
\<close>

definition loadSettings :: "pomodoro \<Rightarrow> pomodoro" where
  "loadSettings s =
     (case stored_timerSettings s of
        None \<Rightarrow> s
      | Some stored \<Rightarrow>
          s\<lparr>settings :=
              merge_settings (settings s)
                \<lparr>new_workTime = Some (workTime stored),
                 new_shortBreak = Some (shortBreak stored),
                 new_longBreak = Some (longBreak stored),
                 new_longBreakInterval = Some (longBreakInterval stored)\<rparr>\<rparr>)"

definition updateSettings :: "new_settings \<Rightarrow> pomodoro \<Rightarrow> pomodoro" where
  "updateSettings newSettings s =
     (let s1 = s\<lparr>settings := merge_settings (settings s) newSettings\<rparr>;
          s2 = s1\<lparr>stored_timerSettings := Some (settings s1),
                  calls := calls s1 @ [StorageSetTimerSettings (settings s1)]\<rparr>
      in if \<not> isTimerRunning s2
         then s2\<lparr>timeRemainingInMilliseconds :=
                   getPhaseTimeInMilliseconds s2 (currentPhase s2)\<rparr>
         else s2)"

definition initializeTimer :: "pomodoro \<Rightarrow> pomodoro" where
  "initializeTimer s =
     (if timeRemainingInMilliseconds s = 0
      then s\<lparr>timeRemainingInMilliseconds :=
                getPhaseTimeInMilliseconds s (currentPhase s)\<rparr>
      else s)"

text \<open>
  The constructor, given what the browser holds when the process starts. Its two loads
  are \<^verbatim>\<open>async\<close> and not awaited: each waits for its storage read, so their bodies run
  after the synchronous \<^verbatim>\<open>initializeTimer\<close>, here in the order the reads were issued.
\<close>

definition new_PomodoroTimer ::
  "timerState option \<Rightarrow> timer_settings option \<Rightarrow> bool \<Rightarrow> pomodoro" where
  "new_PomodoroTimer storedState storedSettings alarmSet =
     loadTimerState (loadSettings (initializeTimer
       \<lparr>isTimerRunning = False,
        currentPhase = ''work'',
        timeRemainingInMilliseconds = 0,
        completedPomodoros = 0,
        timerStartTime = None,
        settings = default_settings,
        stored_timerState = storedState,
        stored_timerSettings = storedSettings,
        alarm = alarmSet,
        calls = []\<rparr>))"

definition start :: "int \<Rightarrow> pomodoro \<Rightarrow> pomodoro" where
  "start now s =
     (if isTimerRunning s then s
      else
        let s1 = saveTimerState (s\<lparr>isTimerRunning := True, timerStartTime := Some now\<rparr>)
        in s1\<lparr>alarm := True, calls := calls s1 @ [AlarmsClear, AlarmsCreate]\<rparr>)"

definition stop :: "int \<Rightarrow> pomodoro \<Rightarrow> pomodoro" where
  "stop now s =
     (if \<not> isTimerRunning s then s
      else
        let elapsedTime = now - to_number (timerStartTime s);
            s1 = saveTimerState
                   (s\<lparr>timeRemainingInMilliseconds :=
                        max 0 (timeRemainingInMilliseconds s - elapsedTime),
                      isTimerRunning := False,
                      timerStartTime := None\<rparr>)
        in s1\<lparr>alarm := False, calls := calls s1 @ [AlarmsClear]\<rparr>)"

definition reset :: "int \<Rightarrow> pomodoro \<Rightarrow> pomodoro" where
  "reset now s =
     (let s1 = (stop now s)\<lparr>currentPhase := ''work''\<rparr>;
          s2 = s1\<lparr>timeRemainingInMilliseconds :=
                    getPhaseTimeInMilliseconds s1 (currentPhase s1),
                  completedPomodoros := 0\<rparr>
      in saveTimerState s2)"

text \<open>
  \<^verbatim>\<open>phaseNames[this.currentPhase]\<close>, as the template literal prints it. The object has the
  three keys of its literal and inherits those of \<^verbatim>\<open>Object.prototype\<close>: the constructor
  and ten other built-in functions, which print in Chrome as native functions, and
  \<^verbatim>\<open>__proto__\<close>, which is \<^verbatim>\<open>Object.prototype\<close> itself. Any other key gives \<^verbatim>\<open>undefined\<close>.
  The code writes no phase but the three of the literal.
\<close>

definition inherited_function_keys :: "string list" where
  "inherited_function_keys =
     [''toString'', ''toLocaleString'', ''valueOf'', ''hasOwnProperty'', ''isPrototypeOf'',
      ''propertyIsEnumerable'', ''__defineGetter__'', ''__defineSetter__'',
      ''__lookupGetter__'', ''__lookupSetter__'']"

definition phaseNames :: "string \<Rightarrow> string" where
  "phaseNames phase =
     (if phase = ''work'' then ''work session''
      else if phase = ''break'' then ''short break''
      else if phase = ''longBreak'' then ''long break''
      else if phase = ''constructor'' then ''function Object() { [native code] }''
      else if phase \<in> set inherited_function_keys
        then ''function '' @ phase @ ''() { [native code] }''
      else if phase = ''__proto__'' then ''[object Object]''
      else ''undefined'')"

definition showCompletionNotification :: "pomodoro \<Rightarrow> pomodoro" where
  "showCompletionNotification s =
     (let completedPhaseName = phaseNames (currentPhase s);
          nextPhaseName =
            (if currentPhase s = ''work''
             then (let upcomingCompletedCount = completedPomodoros s + 1
                   in if rem_is_zero upcomingCompletedCount (longBreakInterval (settings s))
                      then ''long break'' else ''short break'')
             else ''work session'');
          notificationTitle = completedPhaseName @ '' complete!'';
          notificationMessage = ''time for your '' @ nextPhaseName
      in s\<lparr>calls := calls s @
             [NotificationsCreate notificationTitle notificationMessage,
              TtsSpeak (notificationTitle @ '' '' @ notificationMessage)]\<rparr>)"

definition complete :: "int \<Rightarrow> pomodoro \<Rightarrow> pomodoro" where
  "complete now s =
     (let s1 = showCompletionNotification (stop now s);
          completedPhase = currentPhase s1;
          s2 = (if currentPhase s1 = ''work''
                then (let s' = s1\<lparr>completedPomodoros := completedPomodoros s1 + 1\<rparr>
                      in if rem_is_zero (completedPomodoros s') (longBreakInterval (settings s'))
                         then s'\<lparr>currentPhase := ''longBreak''\<rparr>
                         else s'\<lparr>currentPhase := ''break''\<rparr>)
                else s1\<lparr>currentPhase := ''work''\<rparr>);
          s3 = saveTimerState
                 (s2\<lparr>timeRemainingInMilliseconds :=
                       getPhaseTimeInMilliseconds s2 (currentPhase s2)\<rparr>)
      in s3\<lparr>calls := calls s3 @
              [SendTimerCompleted completedPhase (currentPhase s3) (completedPomodoros s3)]\<rparr>)"

definition getState :: "int \<Rightarrow> pomodoro \<Rightarrow> state_snapshot" where
  "getState now s =
     (let currentTimeRemaining =
        (if isTimerRunning s \<and> truthy (timerStartTime s)
         then (let elapsedTime = now - to_number (timerStartTime s)
               in max 0 (timeRemainingInMilliseconds s - elapsedTime))
         else timeRemainingInMilliseconds s)
      in \<lparr>gs_isRunning = isTimerRunning s,
          gs_currentPhase = currentPhase s,
          gs_timeRemaining = currentTimeRemaining,
          gs_totalTime = getPhaseTimeInMilliseconds s (currentPhase s),
          gs_completedPomodoros = completedPomodoros s,
          gs_startTime = timerStartTime s,
          gs_settings = settings s\<rparr>)"

subsection \<open>The listeners of the background script\<close>

text \<open>
  The alarm listener for the alarm named \<^verbatim>\<open>pomodoroTimer\<close>: the periodic tick. It reads
  the clock once in \<^verbatim>\<open>getState\<close> (\<open>now\<close>) and, when it completes the phase, once more in
  \<^verbatim>\<open>stop\<close> (\<open>now'\<close>).
\<close>

definition onAlarm :: "int \<Rightarrow> int \<Rightarrow> pomodoro \<Rightarrow> pomodoro" where
  "onAlarm now now' s =
     (let timerState = getState now s
      in if gs_isRunning timerState \<and> gs_timeRemaining timerState \<le> 0
         then complete now' s
         else if gs_isRunning timerState then s
         else s\<lparr>alarm := False, calls := calls s @ [AlarmsClear]\<rparr>)"


subsection \<open>The save handler of the settings modal (popup.js)\<close>







subsection \<open>Derived notions used in the statements\<close>

text \<open>The six fields of the clock, without the browser side.\<close>

definition clock ::
  "pomodoro \<Rightarrow> string \<times> bool \<times> int \<times> int option \<times> int \<times> timer_settings" where
  "clock s =
     (currentPhase s, isTimerRunning s, timeRemainingInMilliseconds s,
      timerStartTime s, completedPomodoros s, settings s)"

text \<open>A fresh clock: nothing stored, no alarm.\<close>

definition fresh :: pomodoro where
  "fresh = new_PomodoroTimer None None False"

text \<open>Sequences of \<^verbatim>\<open>start\<close> and \<^verbatim>\<open>stop\<close>, each with the time it reads.\<close>

datatype command = Start | Stop

fun exec :: "int \<times> command \<Rightarrow> pomodoro \<Rightarrow> pomodoro" where
  "exec (now, Start) s = start now s"
| "exec (now, Stop) s = stop now s"

fun run :: "(int \<times> command) list \<Rightarrow> pomodoro \<Rightarrow> pomodoro" where
  "run [] s = s"
| "run (c # cs) s = run cs (exec c s)"

text \<open>How many \<^verbatim>\<open>timerCompleted\<close> messages a list of calls holds.\<close>

fun completion_events :: "chrome_call list \<Rightarrow> nat" where
  "completion_events [] = 0"
| "completion_events (SendTimerCompleted p q n # cs) = Suc (completion_events cs)"
| "completion_events (c # cs) = completion_events cs"

text \<open>
  The bounds on the baseline at wall-clock time \<open>t\<close>: it lies between \<open>0\<close> and the full
  length of the current phase, and a running clock was started no later than \<open>t\<close>.
\<close>

definition bounded_at :: "int \<Rightarrow> pomodoro \<Rightarrow> bool" where
  "bounded_at t s \<longleftrightarrow>
     0 \<le> timeRemainingInMilliseconds s \<and>
     timeRemainingInMilliseconds s \<le> getPhaseTimeInMilliseconds s (currentPhase s) \<and>
     (isTimerRunning s \<longrightarrow> (\<exists>t0. timerStartTime s = Some t0 \<and> t0 \<le> t))"

section \<open>Basic facts\<close>

lemmas timer_defs =
  getPhaseTimeInMilliseconds_def saveTimerState_def start_def stop_def
  getState_def truthy_def to_number_def

lemmas fresh_defs =
  fresh_def new_PomodoroTimer_def initializeTimer_def loadSettings_def loadTimerState_def
  default_settings_def

lemmas complete_defs =
  complete_def showCompletionNotification_def phaseNames_def

lemma fresh_eq:
  "fresh =
     \<lparr>isTimerRunning = False, currentPhase = ''work'',
      timeRemainingInMilliseconds = 1500000, completedPomodoros = 0,
      timerStartTime = None,
      settings = \<lparr>workTime = 25, shortBreak = 5, longBreak = 15, longBreakInterval = 4\<rparr>,
      stored_timerState = None, stored_timerSettings = None, alarm = False, calls = []\<rparr>"
  by (simp add: fresh_defs getPhaseTimeInMilliseconds_def)

lemma getPhaseTime_cong:
  "settings s' = settings s \<Longrightarrow>
   getPhaseTimeInMilliseconds s' p = getPhaseTimeInMilliseconds s p"
  by (simp add: getPhaseTimeInMilliseconds_def)

text \<open>Only the settings decide the length of a phase.\<close>

lemma getPhaseTime_update [simp]:
  "getPhaseTimeInMilliseconds (s\<lparr>isTimerRunning := r\<rparr>) p = getPhaseTimeInMilliseconds s p"
  "getPhaseTimeInMilliseconds (s\<lparr>currentPhase := ph\<rparr>) p = getPhaseTimeInMilliseconds s p"
  "getPhaseTimeInMilliseconds (s\<lparr>timeRemainingInMilliseconds := ms\<rparr>) p =
     getPhaseTimeInMilliseconds s p"
  "getPhaseTimeInMilliseconds (s\<lparr>completedPomodoros := n\<rparr>) p = getPhaseTimeInMilliseconds s p"
  "getPhaseTimeInMilliseconds (s\<lparr>timerStartTime := st\<rparr>) p = getPhaseTimeInMilliseconds s p"
  "getPhaseTimeInMilliseconds (s\<lparr>stored_timerState := sts\<rparr>) p = getPhaseTimeInMilliseconds s p"
  "getPhaseTimeInMilliseconds (s\<lparr>stored_timerSettings := ss\<rparr>) p =
     getPhaseTimeInMilliseconds s p"
  "getPhaseTimeInMilliseconds (s\<lparr>alarm := a\<rparr>) p = getPhaseTimeInMilliseconds s p"
  "getPhaseTimeInMilliseconds (s\<lparr>calls := cs\<rparr>) p = getPhaseTimeInMilliseconds s p"
  by (rule getPhaseTime_cong, simp)+

text \<open>For a positive dividend, \<^verbatim>\<open>a % b === 0\<close> is \<open>a mod b = 0\<close>, also at \<open>b = 0\<close>.\<close>

lemma rem_is_zero_pos: "0 < a \<Longrightarrow> rem_is_zero a b \<longleftrightarrow> a mod b = 0"
proof (cases "b = 0")
  case True
  assume "0 < a"
  with True show ?thesis by (simp add: rem_is_zero_def js_rem_def)
next
  case False
  assume a: "0 < a"
  have "\<bar>a\<bar> mod \<bar>b\<bar> = 0 \<longleftrightarrow> \<bar>b\<bar> dvd \<bar>a\<bar>" by (simp add: dvd_eq_mod_eq_0)
  also have "\<dots> \<longleftrightarrow> b dvd a" by simp
  also have "\<dots> \<longleftrightarrow> a mod b = 0" by (simp add: dvd_eq_mod_eq_0)
  finally show ?thesis using a False by (simp add: rem_is_zero_def js_rem_def)
qed

subsection \<open>What stop leaves alone\<close>

lemma stop_phase [simp]: "currentPhase (stop now s) = currentPhase s"
  by (simp add: stop_def saveTimerState_def Let_def)

lemma stop_count [simp]: "completedPomodoros (stop now s) = completedPomodoros s"
  by (simp add: stop_def saveTimerState_def Let_def)

lemma stop_settings [simp]: "settings (stop now s) = settings s"
  by (simp add: stop_def saveTimerState_def Let_def)

lemma stop_not_running [simp]: "\<not> isTimerRunning (stop now s)"
  by (simp add: stop_def saveTimerState_def Let_def)

lemma stop_startTime:
  "timerStartTime (stop now s) = (if isTimerRunning s then None else timerStartTime s)"
  by (simp add: stop_def saveTimerState_def Let_def)

lemma stop_paused: "\<not> isTimerRunning s \<Longrightarrow> stop now s = s"
  by (simp add: stop_def)

subsection \<open>The fields after complete\<close>

lemma complete_phase:
  "currentPhase (complete now s) =
     (if currentPhase s = ''work''
      then (if rem_is_zero (completedPomodoros s + 1) (longBreakInterval (settings s))
            then ''longBreak'' else ''break'')
      else ''work'')"
  by (simp add: complete_defs saveTimerState_def Let_def)

lemma complete_count:
  "completedPomodoros (complete now s) =
     (if currentPhase s = ''work'' then completedPomodoros s + 1 else completedPomodoros s)"
  by (simp add: complete_defs saveTimerState_def Let_def)

lemma complete_settings [simp]: "settings (complete now s) = settings s"
  by (simp add: complete_defs saveTimerState_def Let_def)

lemma complete_not_running [simp]: "\<not> isTimerRunning (complete now s)"
  by (simp add: complete_defs saveTimerState_def Let_def)

lemma complete_interval [simp]:
  "longBreakInterval (settings ((complete now ^^ k) s)) = longBreakInterval (settings s)"
  by (induction k) simp_all

lemma complete_startTime:
  "timerStartTime (complete now s) = (if isTimerRunning s then None else timerStartTime s)"
  by (simp add: complete_def showCompletionNotification_def saveTimerState_def Let_def stop_startTime)

lemma complete_remaining:
  "timeRemainingInMilliseconds (complete now s) =
     getPhaseTimeInMilliseconds s (currentPhase (complete now s))"
  by (auto simp: complete_def showCompletionNotification_def saveTimerState_def Let_def
      intro!: getPhaseTime_cong)

lemma complete_stored:
  "stored_timerState (complete now s) =
     Some \<lparr>ts_isRunning = False,
           ts_currentPhase = currentPhase (complete now s),
           ts_completedPomodoros = completedPomodoros (complete now s),
           ts_startTime = timerStartTime (complete now s),
           ts_timeRemaining = Some (timeRemainingInMilliseconds (complete now s))\<rparr>"
  by (simp add: complete_def showCompletionNotification_def saveTimerState_def Let_def)

lemma complete_calls:
  "calls (complete now s) =
     calls (stop now s) @
     [NotificationsCreate
        (phaseNames (currentPhase s) @ '' complete!'')
        (''time for your '' @
           (if currentPhase s = ''work''
            then (if rem_is_zero (completedPomodoros s + 1) (longBreakInterval (settings s))
                  then ''long break'' else ''short break'')
            else ''work session'')),
      TtsSpeak
        (phaseNames (currentPhase s) @ '' complete!'' @ '' '' @ ''time for your '' @
           (if currentPhase s = ''work''
            then (if rem_is_zero (completedPomodoros s + 1) (longBreakInterval (settings s))
                  then ''long break'' else ''short break'')
            else ''work session'')),
      StorageSetTimerState
        \<lparr>ts_isRunning = False,
         ts_currentPhase = currentPhase (complete now s),
         ts_completedPomodoros = completedPomodoros (complete now s),
         ts_startTime = timerStartTime (complete now s),
         ts_timeRemaining = Some (timeRemainingInMilliseconds (complete now s))\<rparr>,
      SendTimerCompleted (currentPhase s) (currentPhase (complete now s))
        (completedPomodoros (complete now s))]"
  by (simp add: complete_def showCompletionNotification_def saveTimerState_def Let_def)

lemma complete_phase_changes: "currentPhase (complete now s) \<noteq> currentPhase s"
  by (simp add: complete_phase)

subsection \<open>Counting completion messages\<close>

lemma completion_events_append [simp]:
  "completion_events (xs @ ys) = completion_events xs + completion_events ys"
  by (induction xs rule: completion_events.induct) simp_all

lemma complete_clock_paused_after:
  "\<not> isTimerRunning s' \<Longrightarrow> clock (onAlarm t t' s') = clock s' \<and>
     stored_timerState (onAlarm t t' s') = stored_timerState s' \<and>
     stored_timerSettings (onAlarm t t' s') = stored_timerSettings s' \<and>
     completion_events (calls (onAlarm t t' s')) = completion_events (calls s')"
  by (simp add: onAlarm_def getState_def Let_def clock_def)

lemma stop_completion_events [simp]:
  "completion_events (calls (stop now s)) = completion_events (calls s)"
  by (simp add: stop_def saveTimerState_def Let_def)


section \<open>start\<close>

text \<open>
  Claim C8. \<^verbatim>\<open>start()\<close> does nothing when the clock is already running. Otherwise it
  sets the start time to the current time and the running flag to true. In every case the
  remaining-time baseline, the phase, the completed count and the durations stay as they
  were.
\<close>

theorem start_frame:
  "(isTimerRunning s \<longrightarrow> start now s = s) \<and>
   (\<not> isTimerRunning s \<longrightarrow>
      isTimerRunning (start now s) \<and> timerStartTime (start now s) = Some now) \<and>
   timeRemainingInMilliseconds (start now s) = timeRemainingInMilliseconds s \<and>
   currentPhase (start now s) = currentPhase s \<and>
   completedPomodoros (start now s) = completedPomodoros s \<and>
   settings (start now s) = settings s"
  by (simp add: start_def saveTimerState_def Let_def)

theorem start_frame_witness:
  "\<not> isTimerRunning fresh \<and> isTimerRunning (start 1000 fresh) \<and>
   timerStartTime (start 1000 fresh) = Some 1000 \<and>
   timeRemainingInMilliseconds (start 1000 fresh) = 1500000 \<and>
   start 2000 (start 1000 fresh) = start 1000 fresh"
  using start_frame [of fresh 1000] start_frame [of "start 1000 fresh" 2000]
  by (simp add: fresh_eq)

section \<open>stop\<close>

text \<open>
  Claim C9. Calling \<^verbatim>\<open>stop()\<close> twice in a row is the same as calling it once: the second
  call, whatever time it reads, changes nothing, neither in the clock nor on the browser
  side.
\<close>

theorem stop_idempotent: "stop now' (stop now s) = stop now s"
  by (simp add: stop_def saveTimerState_def Let_def)

text \<open>
  What \<^verbatim>\<open>stop()\<close> does to a running clock: the baseline becomes
  \<open>max 0 (baseline - (now - start time))\<close>, the running flag false, the start time
  \<^verbatim>\<open>null\<close>; phase, count and durations stay.
\<close>

lemma stop_running:
  "isTimerRunning s \<Longrightarrow> timerStartTime s = Some t \<Longrightarrow>
   clock (stop now s) =
     (currentPhase s, False, max 0 (timeRemainingInMilliseconds s - (now - t)), None,
      completedPomodoros s, settings s)"
  by (simp add: stop_def saveTimerState_def Let_def clock_def to_number_def)

text \<open>
  The pause and resume scenario, from any positive wall-clock time \<open>T\<close> on: started at
  \<open>T\<close>, read at \<open>T + 10000\<close>, stopped there, started again at \<open>T + 50000\<close> and read at
  \<open>T + 60000\<close>.
\<close>

lemma pause_resume_from_positive_base:
  "0 < T \<Longrightarrow>
   gs_timeRemaining (getState (T + 10000) (start T fresh)) = 25 * 60 * 1000 - 10000 \<and>
   timeRemainingInMilliseconds (stop (T + 10000) (start T fresh)) = 25 * 60 * 1000 - 10000 \<and>
   \<not> isTimerRunning (stop (T + 10000) (start T fresh)) \<and>
   gs_timeRemaining
     (getState (T + 60000) (start (T + 50000) (stop (T + 10000) (start T fresh))))
     = 25 * 60 * 1000 - 10000 - 10000"
  by (simp add: fresh_eq timer_defs Let_def)

text \<open>
  The one reading at which \<^verbatim>\<open>getState\<close> departs from this is \<open>0\<close>, the first millisecond
  of 1970, which \<^verbatim>\<open>Date.now()\<close> does not return to the extension: a start time \<open>0\<close> counts
  as false in the condition \<^verbatim>\<open>this.isTimerRunning && this.timerStartTime\<close>, and the
  elapsed time is not subtracted. \<^verbatim>\<open>stop()\<close> has no such test.
\<close>

lemma getState_after_start_at_zero:
  "gs_timeRemaining (getState 10000 (start 0 fresh)) = 25 * 60 * 1000 \<and>
   timeRemainingInMilliseconds (stop 10000 (start 0 fresh)) = 25 * 60 * 1000 - 10000 \<and>
   \<not> isTimerRunning (stop 10000 (start 0 fresh)) \<and>
   timerStartTime (stop 10000 (start 0 fresh)) = None \<and>
   gs_timeRemaining (getState 60000 (start 50000 (stop 10000 (start 0 fresh))))
     = 25 * 60 * 1000 - 10000 - 10000"
  by (simp add: fresh_eq timer_defs Let_def)

text \<open>
  Claim C2. For every running clock, started at \<open>t\<close>, \<^verbatim>\<open>stop()\<close> at the wall-clock time
  \<open>now\<close> sets the baseline to \<open>max 0 (baseline - (now - t))\<close>, the running flag to false
  and the start time to \<^verbatim>\<open>null\<close>, and leaves phase, count and durations alone. That
  makes resuming exact. The times of the scenario are counted from the first \<^verbatim>\<open>start()\<close>,
  which reads a wall clock \<open>T\<close> after 1970: from a fresh clock with the default settings
  started at \<open>T\<close>, \<^verbatim>\<open>getState\<close> 10000 ms later reports \<open>25 * 60 * 1000 - 10000\<close>;
  \<^verbatim>\<open>stop()\<close> at that time leaves this baseline and a clock that is not running;
  \<^verbatim>\<open>start()\<close> again 50000 ms after the first start and \<^verbatim>\<open>getState\<close> 60000 ms after it
  report \<open>25 * 60 * 1000 - 10000 - 10000\<close>.
\<close>

theorem stop_freezes_remaining:
  "(isTimerRunning s \<and> timerStartTime s = Some t \<longrightarrow>
      timeRemainingInMilliseconds (stop now s) =
        max 0 (timeRemainingInMilliseconds s - (now - t)) \<and>
      \<not> isTimerRunning (stop now s) \<and>
      timerStartTime (stop now s) = None \<and>
      currentPhase (stop now s) = currentPhase s \<and>
      completedPomodoros (stop now s) = completedPomodoros s \<and>
      settings (stop now s) = settings s) \<and>
   (0 < T \<longrightarrow>
      gs_timeRemaining (getState (T + 10000) (start T fresh)) = 25 * 60 * 1000 - 10000 \<and>
      timeRemainingInMilliseconds (stop (T + 10000) (start T fresh))
        = 25 * 60 * 1000 - 10000 \<and>
      \<not> isTimerRunning (stop (T + 10000) (start T fresh)) \<and>
      gs_timeRemaining
        (getState (T + 60000) (start (T + 50000) (stop (T + 10000) (start T fresh))))
        = 25 * 60 * 1000 - 10000 - 10000)"
proof (intro conjI impI)
  assume r: "isTimerRunning s \<and> timerStartTime s = Some t"
  then have c: "clock (stop now s) =
     (currentPhase s, False, max 0 (timeRemainingInMilliseconds s - (now - t)), None,
      completedPomodoros s, settings s)"
    by (simp add: stop_running)
  from c show "timeRemainingInMilliseconds (stop now s) =
        max 0 (timeRemainingInMilliseconds s - (now - t))"
    by (simp add: clock_def)
  from c show "timerStartTime (stop now s) = None"
    by (simp add: clock_def)
  show "\<not> isTimerRunning (stop now s)" "currentPhase (stop now s) = currentPhase s"
    "completedPomodoros (stop now s) = completedPomodoros s"
    "settings (stop now s) = settings s"
    by simp_all
next
  assume "0 < T"
  from pause_resume_from_positive_base [OF this]
  show "gs_timeRemaining (getState (T + 10000) (start T fresh)) = 25 * 60 * 1000 - 10000"
    "timeRemainingInMilliseconds (stop (T + 10000) (start T fresh)) = 25 * 60 * 1000 - 10000"
    "\<not> isTimerRunning (stop (T + 10000) (start T fresh))"
    "gs_timeRemaining
        (getState (T + 60000) (start (T + 50000) (stop (T + 10000) (start T fresh))))
        = 25 * 60 * 1000 - 10000 - 10000"
    by blast+
qed

theorem stop_freezes_remaining_witness:
  "isTimerRunning (start 1700000000000 fresh) \<and>
   timerStartTime (start 1700000000000 fresh) = Some 1700000000000 \<and>
   (0::int) < 1700000000000 \<and>
   timeRemainingInMilliseconds (stop 1700000010000 (start 1700000000000 fresh)) = 1490000 \<and>
   \<not> isTimerRunning (stop 1700000010000 (start 1700000000000 fresh)) \<and>
   timerStartTime (stop 1700000010000 (start 1700000000000 fresh)) = None \<and>
   gs_timeRemaining (getState 1700000010000 (start 1700000000000 fresh)) = 1490000 \<and>
   gs_timeRemaining
     (getState 1700000060000
        (start 1700000050000 (stop 1700000010000 (start 1700000000000 fresh)))) = 1480000"
proof -
  let ?s = "start 1700000000000 fresh"
  have r: "isTimerRunning ?s \<and> timerStartTime ?s = Some 1700000000000"
    by (simp add: fresh_eq start_def saveTimerState_def Let_def)
  have b: "timeRemainingInMilliseconds ?s = 1500000"
    by (simp add: fresh_eq start_def saveTimerState_def Let_def)
  have p: "(0::int) < 1700000000000" by simp
  from stop_freezes_remaining [of ?s 1700000000000 1700000010000 1700000000000] r p
  have "timeRemainingInMilliseconds (stop 1700000010000 ?s) =
          max 0 (timeRemainingInMilliseconds ?s - (1700000010000 - 1700000000000)) \<and>
        \<not> isTimerRunning (stop 1700000010000 ?s) \<and>
        timerStartTime (stop 1700000010000 ?s) = None \<and>
        gs_timeRemaining (getState (1700000000000 + 10000) ?s) = 25 * 60 * 1000 - 10000 \<and>
        gs_timeRemaining
          (getState (1700000000000 + 60000)
             (start (1700000000000 + 50000) (stop (1700000000000 + 10000) ?s)))
          = 25 * 60 * 1000 - 10000 - 10000"
    by blast
  with r p show ?thesis by (simp add: b)
qed

section \<open>The periodic tick\<close>

text \<open>
  Claim C5. The tick leaves the clock and what is stored as they are whenever the clock
  is not running. When the clock is running and the remaining time that \<^verbatim>\<open>getState\<close>
  reports is at most \<open>0\<close>, the tick completes the phase once: afterwards the clock is not
  running, the phase is the next one (and differs from the old one), the count has gone up
  by one exactly after a work phase, the baseline is the full length of the new phase, one
  completion message has been sent, and a second tick at any time changes neither the
  clock nor the storage and sends no further message.
\<close>

theorem tick_completes_once:
  "(\<not> isTimerRunning s \<longrightarrow>
      clock (onAlarm now now' s) = clock s \<and>
      stored_timerState (onAlarm now now' s) = stored_timerState s \<and>
      stored_timerSettings (onAlarm now now' s) = stored_timerSettings s) \<and>
   (isTimerRunning s \<and> gs_timeRemaining (getState now s) \<le> 0 \<longrightarrow>
      \<not> isTimerRunning (onAlarm now now' s) \<and>
      timerStartTime (onAlarm now now' s) = None \<and>
      currentPhase (onAlarm now now' s) \<noteq> currentPhase s \<and>
      currentPhase (onAlarm now now' s) =
        (if currentPhase s = ''work''
         then (if rem_is_zero (completedPomodoros s + 1) (longBreakInterval (settings s))
               then ''longBreak'' else ''break'')
         else ''work'') \<and>
      completedPomodoros (onAlarm now now' s) =
        (if currentPhase s = ''work'' then completedPomodoros s + 1 else completedPomodoros s) \<and>
      timeRemainingInMilliseconds (onAlarm now now' s) =
        getPhaseTimeInMilliseconds (onAlarm now now' s) (currentPhase (onAlarm now now' s)) \<and>
      completion_events (calls (onAlarm now now' s)) = completion_events (calls s) + 1 \<and>
      clock (onAlarm t t' (onAlarm now now' s)) = clock (onAlarm now now' s) \<and>
      stored_timerState (onAlarm t t' (onAlarm now now' s)) =
        stored_timerState (onAlarm now now' s) \<and>
      completion_events (calls (onAlarm t t' (onAlarm now now' s))) =
        completion_events (calls (onAlarm now now' s)))"
proof (intro conjI impI)
  assume "\<not> isTimerRunning s"
  then show "clock (onAlarm now now' s) = clock s"
    "stored_timerState (onAlarm now now' s) = stored_timerState s"
    "stored_timerSettings (onAlarm now now' s) = stored_timerSettings s"
    by (simp_all add: complete_clock_paused_after)
next
  assume due: "isTimerRunning s \<and> gs_timeRemaining (getState now s) \<le> 0"
  then have "gs_isRunning (getState now s)" by (simp add: getState_def Let_def)
  with due have eq: "onAlarm now now' s = complete now' s"
    by (simp add: onAlarm_def Let_def)
  have paused: "\<not> isTimerRunning (complete now' s)" by simp
  show "\<not> isTimerRunning (onAlarm now now' s)" by (simp add: eq)
  show "timerStartTime (onAlarm now now' s) = None"
    using due by (simp add: eq complete_startTime)
  show "currentPhase (onAlarm now now' s) \<noteq> currentPhase s"
    by (simp add: eq complete_phase_changes)
  show "currentPhase (onAlarm now now' s) =
        (if currentPhase s = ''work''
         then (if rem_is_zero (completedPomodoros s + 1) (longBreakInterval (settings s))
               then ''longBreak'' else ''break'')
         else ''work'')"
    by (simp only: eq complete_phase)
  show "completedPomodoros (onAlarm now now' s) =
        (if currentPhase s = ''work'' then completedPomodoros s + 1 else completedPomodoros s)"
    by (simp only: eq complete_count)
  show "timeRemainingInMilliseconds (onAlarm now now' s) =
        getPhaseTimeInMilliseconds (onAlarm now now' s) (currentPhase (onAlarm now now' s))"
    unfolding eq by (simp only: complete_remaining getPhaseTime_cong [OF complete_settings])
  show "completion_events (calls (onAlarm now now' s)) = completion_events (calls s) + 1"
    unfolding eq by (simp add: complete_calls)
  show "clock (onAlarm t t' (onAlarm now now' s)) = clock (onAlarm now now' s)"
    "stored_timerState (onAlarm t t' (onAlarm now now' s)) =
        stored_timerState (onAlarm now now' s)"
    "completion_events (calls (onAlarm t t' (onAlarm now now' s))) =
        completion_events (calls (onAlarm now now' s))"
    unfolding eq using complete_clock_paused_after [OF paused] by simp_all
qed

theorem tick_completes_once_witness:
  "\<not> isTimerRunning fresh \<and> clock (onAlarm 5 6 fresh) = clock fresh \<and>
   isTimerRunning (start 1000 fresh) \<and>
   gs_timeRemaining (getState 1501000 (start 1000 fresh)) \<le> 0 \<and>
   \<not> isTimerRunning (onAlarm 1501000 1501001 (start 1000 fresh)) \<and>
   currentPhase (onAlarm 1501000 1501001 (start 1000 fresh)) = ''break'' \<and>
   timeRemainingInMilliseconds (onAlarm 1501000 1501001 (start 1000 fresh)) = 300000 \<and>
   clock (onAlarm 1501002 1501003 (onAlarm 1501000 1501001 (start 1000 fresh))) =
     clock (onAlarm 1501000 1501001 (start 1000 fresh))"
proof -
  have p: "\<not> isTimerRunning fresh" by (simp add: fresh_eq)
  have r: "isTimerRunning (start 1000 fresh) \<and>
           gs_timeRemaining (getState 1501000 (start 1000 fresh)) \<le> 0"
    by (simp add: fresh_eq timer_defs Let_def)
  have w: "currentPhase (start 1000 fresh) = ''work''"
    "completedPomodoros (start 1000 fresh) = 0"
    "settings (start 1000 fresh) =
       \<lparr>workTime = 25, shortBreak = 5, longBreak = 15, longBreakInterval = 4\<rparr>"
    by (simp_all add: fresh_eq start_def saveTimerState_def Let_def)
  have s: "settings (onAlarm 1501000 1501001 (start 1000 fresh)) = 
       \<lparr>workTime = 25, shortBreak = 5, longBreak = 15, longBreakInterval = 4\<rparr>"
    using r w by (simp add: onAlarm_def Let_def getState_def)
  from tick_completes_once [of fresh 5 6 _ _] p 
  have a: "clock (onAlarm 5 6 fresh) = clock fresh" by blast
  from tick_completes_once [of "start 1000 fresh" 1501000 1501001 1501002 1501003] r
  have b: "\<not> isTimerRunning (onAlarm 1501000 1501001 (start 1000 fresh))"
    "currentPhase (onAlarm 1501000 1501001 (start 1000 fresh)) =
        (if currentPhase (start 1000 fresh) = ''work''
         then (if rem_is_zero (completedPomodoros (start 1000 fresh) + 1) (longBreakInterval (settings (start 1000 fresh)))
               then ''longBreak'' else ''break'')
         else ''work'')"
    "timeRemainingInMilliseconds (onAlarm 1501000 1501001 (start 1000 fresh)) =
        getPhaseTimeInMilliseconds (onAlarm 1501000 1501001 (start 1000 fresh))
          (currentPhase (onAlarm 1501000 1501001 (start 1000 fresh)))"
    "clock (onAlarm 1501002 1501003 (onAlarm 1501000 1501001 (start 1000 fresh))) =
     clock (onAlarm 1501000 1501001 (start 1000 fresh))"
    by blast+
  have ph: "currentPhase (onAlarm 1501000 1501001 (start 1000 fresh)) = ''break''"
    using b(2) by (simp add: w rem_is_zero_def js_rem_def)
  have tr: "timeRemainingInMilliseconds (onAlarm 1501000 1501001 (start 1000 fresh)) = 300000"
    using b(3) by (simp add: ph s getPhaseTimeInMilliseconds_def)
  from p a r b(1) ph tr b(4) show ?thesis by blast
qed

section \<open>Completing a phase\<close>

text \<open>
  Claim C7, as the claim states it, at a clock started at \<open>1000\<close> whose work phase is
  completed at \<open>1501000\<close>. The message \<^verbatim>\<open>timerCompleted\<close>, the one that carries the completed
  phase, the next phase and the count, is the last call of \<^verbatim>\<open>complete()\<close>. It comes after
  the storage write of the phase \<^verbatim>\<open>break\<close> and the count \<open>1\<close>, and what it carries as next
  phase and count are the fields read at that moment: already \<^verbatim>\<open>break\<close> and \<open>1\<close>, not
  \<^verbatim>\<open>work\<close> and \<open>0\<close>.
\<close>

theorem completion_message_counterexample:
  "currentPhase (start 1000 fresh) = ''work'' \<and>
   completedPomodoros (start 1000 fresh) = 0 \<and>
   calls (complete 1501000 (start 1000 fresh)) =
     calls (start 1000 fresh) @
     [StorageSetTimerState
        \<lparr>ts_isRunning = False, ts_currentPhase = ''work'', ts_completedPomodoros = 0,
         ts_startTime = None, ts_timeRemaining = Some 0\<rparr>,
      AlarmsClear,
      NotificationsCreate ''work session complete!'' ''time for your short break'',
      TtsSpeak ''work session complete! time for your short break'',
      StorageSetTimerState
        \<lparr>ts_isRunning = False, ts_currentPhase = ''break'', ts_completedPomodoros = 1,
         ts_startTime = None, ts_timeRemaining = Some 300000\<rparr>,
      SendTimerCompleted ''work'' ''break'' 1]"
  by (simp add: fresh_eq complete_defs timer_defs rem_is_zero_def js_rem_def Let_def)

text \<open>
  Claim C7, amended. \<^verbatim>\<open>complete()\<close> first stops the clock, then creates the notification
  and speaks it, both built from the phase and the count as they still are (they name the
  completed and the next phase, no count). Then it updates count and phase, saves them,
  and only then sends the message \<^verbatim>\<open>timerCompleted\<close> with the completed phase, the new
  phase and the new count. The message still tells the old phase from the new one, which
  always differ.
\<close>

theorem completion_message_after_update:
  "calls (complete now s) =
     calls (stop now s) @
     [NotificationsCreate
        (phaseNames (currentPhase s) @ '' complete!'')
        (''time for your '' @
           (if currentPhase s = ''work''
            then (if rem_is_zero (completedPomodoros s + 1) (longBreakInterval (settings s))
                  then ''long break'' else ''short break'')
            else ''work session'')),
      TtsSpeak
        (phaseNames (currentPhase s) @ '' complete!'' @ '' '' @ ''time for your '' @
           (if currentPhase s = ''work''
            then (if rem_is_zero (completedPomodoros s + 1) (longBreakInterval (settings s))
                  then ''long break'' else ''short break'')
            else ''work session'')),
      StorageSetTimerState
        \<lparr>ts_isRunning = False,
         ts_currentPhase = currentPhase (complete now s),
         ts_completedPomodoros = completedPomodoros (complete now s),
         ts_startTime = timerStartTime (complete now s),
         ts_timeRemaining = Some (timeRemainingInMilliseconds (complete now s))\<rparr>,
      SendTimerCompleted (currentPhase s) (currentPhase (complete now s))
        (completedPomodoros (complete now s))] \<and>
   currentPhase (complete now s) \<noteq> currentPhase s \<and>
   completedPomodoros (complete now s) =
     (if currentPhase s = ''work'' then completedPomodoros s + 1 else completedPomodoros s)"
  using complete_calls [of now s] complete_phase_changes [of now s] complete_count [of now s]
  by simp

text \<open>
  Claim C4. Completing a work phase leads to the long break when the resulting count is
  positive and a multiple of the long-break interval, and to the short break otherwise;
  completing any other phase leads to work. With the default settings (25 minutes of
  work, interval 4), seven completions from a fresh clock go through work, break, work,
  break, work, break, work, long break, and the count is 4 after the fourth work phase.
\<close>

theorem next_phase_rule:
  "(0 \<le> completedPomodoros s \<longrightarrow>
      currentPhase (complete now s) =
        (if currentPhase s = ''work''
         then (if completedPomodoros (complete now s) mod longBreakInterval (settings s) = 0
                  \<and> 0 < completedPomodoros (complete now s)
               then ''longBreak'' else ''break'')
         else ''work'')) \<and>
   map (\<lambda>k. currentPhase (((complete now) ^^ k) fresh)) [0, 1, 2, 3, 4, 5, 6, 7] =
     [''work'', ''break'', ''work'', ''break'', ''work'', ''break'', ''work'', ''longBreak''] \<and>
   map (\<lambda>k. completedPomodoros (((complete now) ^^ k) fresh)) [0, 1, 2, 3, 4, 5, 6, 7] =
     [0, 1, 1, 2, 2, 3, 3, 4]"
proof -
  define st where "st k = (complete now ^^ k) fresh" for k
  have st_Suc: "st (Suc k) = complete now (st k)" for k
    by (simp add: st_def)
  have iv: "longBreakInterval (settings (st k)) = 4" for k
    by (simp add: st_def fresh_eq)
  note step = st_Suc complete_phase complete_count iv rem_is_zero_def js_rem_def
  have h0: "currentPhase (st 0) = ''work'' \<and> completedPomodoros (st 0) = 0"
    by (simp add: st_def fresh_eq)
  have h1: "currentPhase (st (Suc 0)) = ''break'' \<and> completedPomodoros (st (Suc 0)) = 1"
    using h0 by (simp add: step)
  have h2: "currentPhase (st (Suc (Suc 0))) = ''work'' \<and>
            completedPomodoros (st (Suc (Suc 0))) = 1"
    using h1 by (simp add: step)
  have h3: "currentPhase (st (Suc (Suc (Suc 0)))) = ''break'' \<and>
            completedPomodoros (st (Suc (Suc (Suc 0)))) = 2"
    using h2 by (simp add: step)
  have h4: "currentPhase (st (Suc (Suc (Suc (Suc 0))))) = ''work'' \<and>
            completedPomodoros (st (Suc (Suc (Suc (Suc 0))))) = 2"
    using h3 by (simp add: step)
  have h5: "currentPhase (st (Suc (Suc (Suc (Suc (Suc 0)))))) = ''break'' \<and>
            completedPomodoros (st (Suc (Suc (Suc (Suc (Suc 0)))))) = 3"
    using h4 by (simp add: step)
  have h6: "currentPhase (st (Suc (Suc (Suc (Suc (Suc (Suc 0))))))) = ''work'' \<and>
            completedPomodoros (st (Suc (Suc (Suc (Suc (Suc (Suc 0))))))) = 3"
    using h5 by (simp add: step)
  have h7: "currentPhase (st (Suc (Suc (Suc (Suc (Suc (Suc (Suc 0)))))))) = ''longBreak'' \<and>
            completedPomodoros (st (Suc (Suc (Suc (Suc (Suc (Suc (Suc 0)))))))) = 4"
    using h6 by (simp add: step)
  have rule: "0 \<le> completedPomodoros s \<longrightarrow>
      currentPhase (complete now s) =
        (if currentPhase s = ''work''
         then (if completedPomodoros (complete now s) mod longBreakInterval (settings s) = 0
                  \<and> 0 < completedPomodoros (complete now s)
               then ''longBreak'' else ''break'')
         else ''work'')"
  proof
    assume "0 \<le> completedPomodoros s"
    then have "0 < completedPomodoros s + 1" by simp
    then show "currentPhase (complete now s) =
        (if currentPhase s = ''work''
         then (if completedPomodoros (complete now s) mod longBreakInterval (settings s) = 0
                  \<and> 0 < completedPomodoros (complete now s)
               then ''longBreak'' else ''break'')
         else ''work'')"
      by (simp add: complete_phase complete_count rem_is_zero_pos)
  qed
  have nums: "st 1 = st (Suc 0)" "st 2 = st (Suc (Suc 0))" "st 3 = st (Suc (Suc (Suc 0)))"
    "st 4 = st (Suc (Suc (Suc (Suc 0))))" "st 5 = st (Suc (Suc (Suc (Suc (Suc 0)))))"
    "st 6 = st (Suc (Suc (Suc (Suc (Suc (Suc 0))))))"
    "st 7 = st (Suc (Suc (Suc (Suc (Suc (Suc (Suc 0)))))))"
    by (simp_all add: numeral_eq_Suc)
  have seq: "map (\<lambda>k. currentPhase (st k)) [0, 1, 2, 3, 4, 5, 6, 7] =
     [''work'', ''break'', ''work'', ''break'', ''work'', ''break'', ''work'', ''longBreak'']"
    using h0 h1 h2 h3 h4 h5 h6 h7 by (simp add: nums)
  have cnt: "map (\<lambda>k. completedPomodoros (st k)) [0, 1, 2, 3, 4, 5, 6, 7] =
     [0, 1, 1, 2, 2, 3, 3, 4]"
    using h0 h1 h2 h3 h4 h5 h6 h7 by (simp add: nums)
  from rule seq cnt show ?thesis unfolding st_def by blast
qed

theorem next_phase_rule_witness:
  "0 \<le> completedPomodoros (fresh\<lparr>completedPomodoros := 3\<rparr>) \<and>
   completedPomodoros (complete 7 (fresh\<lparr>completedPomodoros := 3\<rparr>)) = 4 \<and>
   currentPhase (complete 7 (fresh\<lparr>completedPomodoros := 3\<rparr>)) = ''longBreak''"
proof -
  have c: "0 \<le> completedPomodoros (fresh\<lparr>completedPomodoros := 3\<rparr>)"
    by simp
  have n: "completedPomodoros (complete 7 (fresh\<lparr>completedPomodoros := 3\<rparr>)) = 4"
    by (simp add: complete_count fresh_eq)
  from next_phase_rule [of "fresh\<lparr>completedPomodoros := 3\<rparr>" 7] c
  have "currentPhase (complete 7 (fresh\<lparr>completedPomodoros := 3\<rparr>)) =
        (if currentPhase (fresh\<lparr>completedPomodoros := 3\<rparr>) = ''work''
         then (if completedPomodoros (complete 7 (fresh\<lparr>completedPomodoros := 3\<rparr>)) mod
                    longBreakInterval (settings (fresh\<lparr>completedPomodoros := 3\<rparr>)) = 0
                  \<and> 0 < completedPomodoros (complete 7 (fresh\<lparr>completedPomodoros := 3\<rparr>))
               then ''longBreak'' else ''break'')
         else ''work'')"
    by blast
  then have "currentPhase (complete 7 (fresh\<lparr>completedPomodoros := 3\<rparr>)) = ''longBreak''"
    unfolding n by (simp add: fresh_eq)
  with c n show ?thesis by blast
qed

section \<open>Saving and loading\<close>




text \<open>
  Claim C10. When the stored state is not running and its remaining time is \<open>0\<close>, or is
  missing while the object's own remaining time is \<open>0\<close>, \<^verbatim>\<open>loadTimerState\<close> sets the
  remaining time to the full length of the restored phase.
\<close>

theorem load_reseeds_paused_zero:
  assumes "stored_timerState s = Some ts" and "\<not> ts_isRunning ts"
    and "ts_timeRemaining ts = Some 0 \<or>
         (ts_timeRemaining ts = None \<and> timeRemainingInMilliseconds s = 0)"
  shows "currentPhase (loadTimerState s) =
           (if ts_currentPhase ts = [] then ''work'' else ts_currentPhase ts) \<and>
         timeRemainingInMilliseconds (loadTimerState s) =
           getPhaseTimeInMilliseconds s (currentPhase (loadTimerState s))"
  using assms
  by (cases "ts_timeRemaining ts") (simp_all add: loadTimerState_def Let_def)

theorem load_reseeds_paused_zero_witness:
  "stored_timerState (stop 1600000 (start 1000 fresh)) =
     Some \<lparr>ts_isRunning = False, ts_currentPhase = ''work'', ts_completedPomodoros = 0,
           ts_startTime = None, ts_timeRemaining = Some 0\<rparr> \<and>
   currentPhase (loadTimerState (stop 1600000 (start 1000 fresh))) = ''work'' \<and>
   timeRemainingInMilliseconds (loadTimerState (stop 1600000 (start 1000 fresh))) = 1500000"
proof -
  let ?s = "stop 1600000 (start 1000 fresh)"
  let ?ts = "\<lparr>ts_isRunning = False, ts_currentPhase = ''work'', ts_completedPomodoros = 0,
           ts_startTime = None, ts_timeRemaining = Some 0\<rparr>"
  have st: "stored_timerState ?s = Some ?ts"
    by (simp add: fresh_eq timer_defs Let_def)
  have se: "settings ?s = \<lparr>workTime = 25, shortBreak = 5, longBreak = 15, longBreakInterval = 4\<rparr>"
    by (simp add: fresh_eq start_def saveTimerState_def Let_def)
  from load_reseeds_paused_zero [OF st] have
    "currentPhase (loadTimerState ?s) = ''work'' \<and>
     timeRemainingInMilliseconds (loadTimerState ?s) =
       getPhaseTimeInMilliseconds ?s (currentPhase (loadTimerState ?s))"
    by simp
  then show ?thesis using st se by (simp add: getPhaseTimeInMilliseconds_def)
qed

section \<open>Settings\<close>




section \<open>Bounds on the remaining time\<close>

lemma start_total [simp]:
  "getPhaseTimeInMilliseconds (start now s) p = getPhaseTimeInMilliseconds s p"
  by (rule getPhaseTime_cong) (simp add: start_def saveTimerState_def Let_def)

lemma stop_total [simp]:
  "getPhaseTimeInMilliseconds (stop now s) p = getPhaseTimeInMilliseconds s p"
  by (rule getPhaseTime_cong) simp

lemma start_bounded: "bounded_at t s \<Longrightarrow> t \<le> t' \<Longrightarrow> bounded_at t' (start t' s)"
  unfolding bounded_at_def start_total
  by (auto simp: start_def saveTimerState_def Let_def)

lemma stop_bounded: "bounded_at t s \<Longrightarrow> t \<le> t' \<Longrightarrow> bounded_at t' (stop t' s)"
  unfolding bounded_at_def stop_total
  by (auto simp: stop_def saveTimerState_def Let_def to_number_def)

lemma exec_bounded: "bounded_at t s \<Longrightarrow> t \<le> fst c \<Longrightarrow> bounded_at (fst c) (exec c s)"
  by (cases c; cases "snd c") (auto intro: start_bounded stop_bounded)

lemma bounded_later: "bounded_at t s \<Longrightarrow> t \<le> t' \<Longrightarrow> bounded_at t' s"
  unfolding bounded_at_def by auto

lemma run_bounded:
  "bounded_at t s \<Longrightarrow> sorted (t # map fst cs @ [now]) \<Longrightarrow> bounded_at now (run cs s)"
proof (induction cs arbitrary: t s)
  case Nil
  then show ?case by (simp add: bounded_later)
next
  case (Cons c cs)
  from Cons.prems have le: "t \<le> fst c" by simp
  from Cons.prems have so: "sorted (fst c # map fst cs @ [now])" by simp
  from exec_bounded [OF Cons.prems(1) le] so
  have "bounded_at now (run cs (exec c s))" by (rule Cons.IH)
  then show ?case by simp
qed

lemma getState_bounded:
  "bounded_at now s \<Longrightarrow>
   0 \<le> gs_timeRemaining (getState now s) \<and>
   gs_timeRemaining (getState now s) \<le> gs_totalTime (getState now s)"
  unfolding bounded_at_def
  by (auto simp: getState_def Let_def to_number_def)

text \<open>
  The bounds hold for a paused clock as soon as \<^verbatim>\<open>updateSettings\<close> has run with
  durations that are not negative: it sets the baseline to the full length of the phase.
\<close>

lemma updateSettings_paused_bounded:
  assumes "\<not> isTimerRunning s"
    and "0 \<le> workTime (merge_settings (settings s) n)"
    and "0 \<le> shortBreak (merge_settings (settings s) n)"
    and "0 \<le> longBreak (merge_settings (settings s) n)"
  shows "bounded_at t (updateSettings n s)"
  using assms
  by (simp add: bounded_at_def updateSettings_def Let_def getPhaseTimeInMilliseconds_def)

text \<open>
  Claim C3, as the claim states it. First, a fresh clock started while \<^verbatim>\<open>Date.now()\<close> is
  \<open>10000\<close> and read, or stopped, while it is \<open>5000\<close>: the reported remaining time and then
  the baseline are \<open>1505000\<close>, above the \<open>1500000\<close> of the work phase. Second, a fresh clock
  started at \<open>1000\<close> whose work time is then set to one minute: the clock is running, so
  \<^verbatim>\<open>updateSettings\<close> keeps the baseline of \<open>1500000\<close>, above the \<open>60000\<close> the work phase now
  lasts, and \<^verbatim>\<open>getState\<close> at \<open>2000\<close> reports \<open>1499000\<close> remaining of \<open>60000\<close>.
\<close>

theorem remaining_exceeds_total_counterexample:
  "gs_timeRemaining (getState 5000 (run [(10000, Start)] fresh)) = 1505000 \<and>
   gs_totalTime (getState 5000 (run [(10000, Start)] fresh)) = 1500000 \<and>
   timeRemainingInMilliseconds (run [(10000, Start), (5000, Stop)] fresh) = 1505000 \<and>
   getPhaseTimeInMilliseconds (run [(10000, Start), (5000, Stop)] fresh)
     (currentPhase (run [(10000, Start), (5000, Stop)] fresh)) = 1500000 \<and>
   timeRemainingInMilliseconds
     (updateSettings \<lparr>new_workTime = Some 1, new_shortBreak = None, new_longBreak = None,
                      new_longBreakInterval = None\<rparr> (run [(1000, Start)] fresh)) = 1500000 \<and>
   gs_timeRemaining (getState 2000
     (updateSettings \<lparr>new_workTime = Some 1, new_shortBreak = None, new_longBreak = None,
                      new_longBreakInterval = None\<rparr> (run [(1000, Start)] fresh))) = 1499000 \<and>
   gs_totalTime (getState 2000
     (updateSettings \<lparr>new_workTime = Some 1, new_shortBreak = None, new_longBreak = None,
                      new_longBreakInterval = None\<rparr> (run [(1000, Start)] fresh))) = 60000"
  by (simp add: fresh_eq timer_defs updateSettings_def merge_settings_def Let_def)

text \<open>
  Claim C3, amended. Take any durations and a paused clock whose baseline lies between
  \<open>0\<close> and the full length of its phase (a fresh clock is one). After any sequence of
  \<^verbatim>\<open>start\<close> and \<^verbatim>\<open>stop\<close> whose clock readings, followed by the reading of
  \<^verbatim>\<open>getState\<close>, never go back, the remaining time that \<^verbatim>\<open>getState\<close> reports is neither
  negative nor above the length of the current phase, and the same holds for the
  baseline.
\<close>

theorem remaining_within_phase_duration:
  assumes "\<not> isTimerRunning s"
    and "0 \<le> timeRemainingInMilliseconds s"
    and "timeRemainingInMilliseconds s \<le> getPhaseTimeInMilliseconds s (currentPhase s)"
    and "sorted (map fst cs @ [now])"
  shows "0 \<le> gs_timeRemaining (getState now (run cs s)) \<and>
         gs_timeRemaining (getState now (run cs s)) \<le> gs_totalTime (getState now (run cs s)) \<and>
         0 \<le> timeRemainingInMilliseconds (run cs s) \<and>
         timeRemainingInMilliseconds (run cs s) \<le>
           getPhaseTimeInMilliseconds (run cs s) (currentPhase (run cs s))"
proof -
  define t where "t = (case cs of [] \<Rightarrow> now | c # _ \<Rightarrow> fst c)"
  have b0: "bounded_at t s"
    using assms(1-3) by (simp add: bounded_at_def)
  have so: "sorted (t # map fst cs @ [now])"
    using assms(4) by (cases cs) (auto simp: t_def)
  have b: "bounded_at now (run cs s)"
    using run_bounded [OF b0 so] .
  from getState_bounded [OF b] b show ?thesis
    by (simp add: bounded_at_def)
qed

theorem remaining_within_phase_duration_witness:
  "\<not> isTimerRunning fresh \<and> 0 \<le> timeRemainingInMilliseconds fresh \<and>
   timeRemainingInMilliseconds fresh \<le> getPhaseTimeInMilliseconds fresh (currentPhase fresh) \<and>
   sorted (map fst [(1000, Start), (11000, Stop), (51000, Start)] @ [61000 :: int]) \<and>
   0 \<le> gs_timeRemaining (getState 61000 (run [(1000, Start), (11000, Stop), (51000, Start)] fresh)) \<and>
   gs_timeRemaining (getState 61000 (run [(1000, Start), (11000, Stop), (51000, Start)] fresh))
     \<le> gs_totalTime (getState 61000 (run [(1000, Start), (11000, Stop), (51000, Start)] fresh))"
proof -
  have a: "\<not> isTimerRunning fresh" "0 \<le> timeRemainingInMilliseconds fresh"
    "timeRemainingInMilliseconds fresh \<le> getPhaseTimeInMilliseconds fresh (currentPhase fresh)"
    by (simp_all add: fresh_eq getPhaseTimeInMilliseconds_def)
  have s: "sorted (map fst [(1000, Start), (11000, Stop), (51000, Start)] @ [61000 :: int])"
    by simp
  from remaining_within_phase_duration [OF a s] a s show ?thesis by blast
qed

end
